theory Spec2Isabelle
  imports Complex_Main
begin

section \<open>Python values\<close>

text \<open>
  The program is Python. Every value that flows through the modelled functions is either
  a string or a value produced by \<^verbatim>\<open>json.loads\<close>: \<^verbatim>\<open>None\<close>, a bool, an int, a float,
  a str, a list or a dict with string keys. A dict is an association list in insertion
  order; \<open>map_of\<close> is the lookup \<^verbatim>\<open>d[k]\<close> / \<^verbatim>\<open>d.get(k)\<close>. Python's \<^verbatim>\<open>None\<close> is \<open>JNull\<close>.
\<close>

datatype pyfloat = Finite real | PosInf | NegInf | NaN

datatype json =
    JNull
  | JBool bool
  | JInt int
  | JFloat pyfloat
  | JStr string
  | JArr "json list"
  | JObj "(string \<times> json) list"

text \<open>Truthiness, as \<^verbatim>\<open>if x:\<close> and \<^verbatim>\<open>not x\<close> read a value.\<close>

fun truthy :: "json \<Rightarrow> bool" where
  "truthy JNull = False"
| "truthy (JBool b) = b"
| "truthy (JInt i) = (i \<noteq> 0)"
| "truthy (JFloat f) = (f \<noteq> Finite 0)"
| "truthy (JStr s) = (s \<noteq> [])"
| "truthy (JArr xs) = (xs \<noteq> [])"
| "truthy (JObj kvs) = (kvs \<noteq> [])"

text \<open>
  The exceptions the modelled code can meet. \<open>JSONDecodeError\<close> carries \<^verbatim>\<open>e.msg\<close>,
  \<open>ValidationError\<close> carries \<^verbatim>\<open>e.message\<close>; \<open>OtherError\<close> stands for any other exception
  raised by a collaborator (the model call, the broker connection).
\<close>

datatype exn =
    JSONDecodeError string
  | ValidationError string
  | TypeError
  | AttributeError
  | OtherError string

text \<open>\<^verbatim>\<open>obj.get(key)\<close> and \<^verbatim>\<open>obj.get(key, default)\<close>: only a dict has the method.\<close>

definition py_get_default :: "json \<Rightarrow> string \<Rightarrow> json \<Rightarrow> exn + json" where
  "py_get_default obj key dflt =
     (case obj of
        JObj kvs \<Rightarrow> (case map_of kvs key of Some v \<Rightarrow> Inr v | None \<Rightarrow> Inr dflt)
      | _ \<Rightarrow> Inl AttributeError)"

definition py_get :: "json \<Rightarrow> string \<Rightarrow> exn + json" where
  "py_get obj key = py_get_default obj key JNull"

text \<open>
  \<^verbatim>\<open>for x in v\<close>: a list gives its elements, a dict its keys, a str its characters;
  \<^verbatim>\<open>None\<close>, bools and numbers are not iterable.
\<close>

definition py_iter :: "json \<Rightarrow> exn + json list" where
  "py_iter v =
     (case v of
        JArr xs \<Rightarrow> Inr xs
      | JObj kvs \<Rightarrow> Inr (map (\<lambda>kv. JStr (fst kv)) kvs)
      | JStr s \<Rightarrow> Inr (map (\<lambda>c. JStr [c]) s)
      | _ \<Rightarrow> Inl TypeError)"

section \<open>Collaborators\<close>

text \<open>
  What the repository calls but does not define is a parameter of the model:
  \<^item> \<open>json_loads\<close>: \<^verbatim>\<open>json.loads\<close> on a str; it raises \<open>JSONDecodeError\<close> on a text that is
    not a JSON document;
  \<^item> \<open>json_dumps\<close>: \<^verbatim>\<open>json.dumps(payload, separators=(",", ":"))\<close>;
  \<^item> \<open>py_str\<close>: how an f-string renders a value that is not a str;
  \<^item> \<open>schema_error_message\<close>: the message of the \<open>ValidationError\<close> that
    \<^verbatim>\<open>jsonschema.validate\<close> raises for an instance;
  \<^item> \<open>chat_completion\<close>: \<^verbatim>\<open>openai.ChatCompletion.create(...).choices[0].message.content\<close>
    for the user message given, a str or \<^verbatim>\<open>None\<close>, or the exception raised on the way;
  \<^item> \<open>mqtt_publish\<close>: the exception, if any, with which the MQTT client refuses to take
    a message for a topic.
\<close>

record world =
  json_loads :: "string \<Rightarrow> exn + json"
  json_dumps :: "json \<Rightarrow> string"
  py_str :: "json \<Rightarrow> string"
  schema_error_message :: "json \<Rightarrow> string"
  chat_completion :: "string \<Rightarrow> exn + json"
  mqtt_publish :: "string \<Rightarrow> string \<Rightarrow> exn option"

text \<open>\<^verbatim>\<open>json.loads(x)\<close> for a value \<open>x\<close> that need not be a str: anything else is a \<open>TypeError\<close>.\<close>

definition loads_value :: "world \<Rightarrow> json \<Rightarrow> exn + json" where
  "loads_value w x = (case x of JStr s \<Rightarrow> json_loads w s | _ \<Rightarrow> Inl TypeError)"

text \<open>A value inside an f-string: a str is inserted as it is.\<close>

definition format_value :: "world \<Rightarrow> json \<Rightarrow> string" where
  "format_value w v = (case v of JStr s \<Rightarrow> s | _ \<Rightarrow> py_str w v)"

section \<open>services/openai/schema.py\<close>

text \<open>
  A schema is the list of the keywords of its dict; only the keywords and the type names
  that \<^verbatim>\<open>smart_home_command_schema\<close> uses are modelled.
\<close>

datatype jtype = TObject | TString | TArray | TNull

datatype keyword =
    KType jtype
  | KRequired "string list"
  | KProperties "(string \<times> keyword list) list"
  | KAnyOf "keyword list list"
  | KEnum "json list"
  | KItems "keyword list"
  | KMinItems nat
  | KMaxItems nat
  | KUniqueItems bool

definition action_enum :: "json list" where
  "action_enum =
     [JStr ''turn_on'', JStr ''turn_off'', JStr ''set_brightness'', JStr ''set_temperature'',
      JStr ''lock'', JStr ''unlock'']"

definition device_enum :: "json list" where
  "device_enum = [JStr ''lights'', JStr ''thermostat'', JStr ''door'', JStr ''fan'']"

definition color_enum :: "json list" where
  "color_enum = [JStr ''red'', JStr ''blue'', JStr ''green'']"

definition command_object_schema :: "keyword list" where
  "command_object_schema =
     [KType TObject,
      KRequired [''action'', ''device'', ''target''],
      KProperties
        [(''action'', [KType TString, KEnum action_enum]),
         (''device'', [KType TString, KEnum device_enum]),
         (''target'',
            [KAnyOf
               [[KType TString, KEnum color_enum],
                [KType TArray,
                 KItems [KType TString, KEnum color_enum],
                 KMinItems 1,
                 KMaxItems 3,
                 KUniqueItems True]]])]]"

definition smart_home_command_schema :: "keyword list" where
  "smart_home_command_schema =
     [KType TObject,
      KRequired [''speak'', ''command''],
      KProperties
        [(''speak'', [KType TString]),
         (''command'', [KAnyOf [command_object_schema, [KType TNull]]])]]"

subsection \<open>What \<^verbatim>\<open>jsonschema.validate\<close> checks\<close>

text \<open>
  Each keyword constrains only the instances of the kind it speaks about:
  \<^verbatim>\<open>required\<close> and \<^verbatim>\<open>properties\<close> pass on anything that is not an object,
  \<^verbatim>\<open>items\<close>, \<^verbatim>\<open>minItems\<close>, \<^verbatim>\<open>maxItems\<close> and \<^verbatim>\<open>uniqueItems\<close> on anything that is not an
  array. A schema holds when all its keywords hold. Equality of instances (in \<^verbatim>\<open>enum\<close>
  and \<^verbatim>\<open>uniqueItems\<close>) is equality of values; the schema above compares strings only.
\<close>

fun check_type :: "jtype \<Rightarrow> json \<Rightarrow> bool" where
  "check_type TObject v = (case v of JObj _ \<Rightarrow> True | _ \<Rightarrow> False)"
| "check_type TString v = (case v of JStr _ \<Rightarrow> True | _ \<Rightarrow> False)"
| "check_type TArray v = (case v of JArr _ \<Rightarrow> True | _ \<Rightarrow> False)"
| "check_type TNull v = (case v of JNull \<Rightarrow> True | _ \<Rightarrow> False)"

fun satisfies :: "keyword \<Rightarrow> json \<Rightarrow> bool" where
  "satisfies (KType t) v = check_type t v"
| "satisfies (KRequired ks) v =
     (case v of JObj kvs \<Rightarrow> list_all (\<lambda>k. map_of kvs k \<noteq> None) ks | _ \<Rightarrow> True)"
| "satisfies (KProperties ps) v =
     (case v of
        JObj kvs \<Rightarrow>
          list_all (\<lambda>(k, sub). case map_of kvs k of
                       None \<Rightarrow> True
                     | Some x \<Rightarrow> list_all (\<lambda>kw. satisfies kw x) sub) ps
      | _ \<Rightarrow> True)"
| "satisfies (KAnyOf subs) v = list_ex (\<lambda>sub. list_all (\<lambda>kw. satisfies kw v) sub) subs"
| "satisfies (KEnum vals) v = (v \<in> set vals)"
| "satisfies (KItems sub) v =
     (case v of
        JArr xs \<Rightarrow> list_all (\<lambda>x. list_all (\<lambda>kw. satisfies kw x) sub) xs
      | _ \<Rightarrow> True)"
| "satisfies (KMinItems n) v = (case v of JArr xs \<Rightarrow> n \<le> length xs | _ \<Rightarrow> True)"
| "satisfies (KMaxItems n) v = (case v of JArr xs \<Rightarrow> length xs \<le> n | _ \<Rightarrow> True)"
| "satisfies (KUniqueItems b) v =
     (case v of JArr xs \<Rightarrow> (if b then distinct xs else True) | _ \<Rightarrow> True)"

definition jsonschema_valid :: "keyword list \<Rightarrow> json \<Rightarrow> bool" where
  "jsonschema_valid schema inst = list_all (\<lambda>kw. satisfies kw inst) schema"

text \<open>\<^verbatim>\<open>validate(instance=..., schema=...)\<close>: returns, or raises \<open>ValidationError\<close>.\<close>

definition validate :: "world \<Rightarrow> json \<Rightarrow> keyword list \<Rightarrow> exn option" where
  "validate w inst schema =
     (if jsonschema_valid schema inst then None
      else Some (ValidationError (schema_error_message w inst)))"

section \<open>utils/validation.py\<close>

text \<open>
  \<^verbatim>\<open>is_valid_command_structure\<close> returns the pair \<^verbatim>\<open>(True, parsed)\<close> or \<^verbatim>\<open>(False, None)\<close>; its
  \<^verbatim>\<open>except\<close> clause catches \<open>JSONDecodeError\<close> and \<open>ValidationError\<close> and nothing else.
\<close>

definition is_valid_command_structure :: "world \<Rightarrow> string \<Rightarrow> exn + bool \<times> json" where
  "is_valid_command_structure w response_text =
     (case json_loads w response_text of
        Inl (JSONDecodeError m) \<Rightarrow> Inr (False, JNull)
      | Inl (ValidationError m) \<Rightarrow> Inr (False, JNull)
      | Inl e \<Rightarrow> Inl e
      | Inr parsed \<Rightarrow>
          (case validate w parsed smart_home_command_schema of
             None \<Rightarrow> Inr (True, parsed)
           | Some (JSONDecodeError m) \<Rightarrow> Inr (False, JNull)
           | Some (ValidationError m) \<Rightarrow> Inr (False, JNull)
           | Some e \<Rightarrow> Inl e))"

text \<open>
  \<^verbatim>\<open>get_validation_error_details\<close> returns \<^verbatim>\<open>None\<close> or the text of the error.
  \<open>error_details\<close> is its pair of \<^verbatim>\<open>except\<close> clauses; any other exception goes on.
\<close>

definition error_details :: "exn \<Rightarrow> exn + json" where
  "error_details e =
     (case e of
        JSONDecodeError m \<Rightarrow> Inr (JStr (''JSON Decode Error: '' @ m))
      | ValidationError m \<Rightarrow> Inr (JStr (''Schema Validation Error: '' @ m))
      | _ \<Rightarrow> Inl e)"

definition get_validation_error_details :: "world \<Rightarrow> string \<Rightarrow> exn + json" where
  "get_validation_error_details w response_text =
     (case json_loads w response_text of
        Inl e \<Rightarrow> error_details e
      | Inr parsed \<Rightarrow>
          (case validate w parsed smart_home_command_schema of
             None \<Rightarrow> Inr JNull
           | Some e \<Rightarrow> error_details e))"

section \<open>Effects\<close>

text \<open>
  What a function does besides returning: the lines it prints (one constructor per
  \<^verbatim>\<open>print\<close> of the source, with the values printed), the model call of the fallback, and
  the messages handed to the MQTT client. A computation is the list of its effects, in
  order, and its result or the exception that ended it.
\<close>

datatype log =
    LogValidationFailed
  | LogDropped
  | LogSpeak json
  | LogCommand json
  | LogInvalidReason json
  | LogAttemptFallback
  | LogRecovered
  | LogValue json
  | LogFallbackFailed
  | LogFallbackError exn
  | LogMqtt string string
  | LogMessageType json
  | LogDelta json
  | LogFinalFragment json
  | LogBufferEmpty
  | LogParseFailed exn
  | LogBufferWas string
  | LogParsedPayload json

datatype effect =
    Print log
  | ChatCreate string
  | MqttPublish string string

type_synonym 'a res = "effect list \<times> (exn + 'a)"

definition return_res :: "'a \<Rightarrow> 'a res" where
  "return_res a = ([], Inr a)"

definition emit :: "effect \<Rightarrow> unit res" where
  "emit e = ([e], Inr ())"

definition lift :: "exn + 'a \<Rightarrow> 'a res" where
  "lift r = ([], r)"

definition bind_res :: "'a res \<Rightarrow> ('a \<Rightarrow> 'b res) \<Rightarrow> 'b res" where
  "bind_res m f =
     (case m of
        (effs, Inl e) \<Rightarrow> (effs, Inl e)
      | (effs, Inr a) \<Rightarrow> (case f a of (effs', r) \<Rightarrow> (effs @ effs', r)))"

text \<open>One call of \<^verbatim>\<open>client.publish(topic, payload)\<close>.\<close>

definition publish_call :: "world \<Rightarrow> string \<Rightarrow> string \<Rightarrow> unit res" where
  "publish_call w topic payload =
     (case mqtt_publish w topic payload of
        None \<Rightarrow> ([MqttPublish topic payload], Inr ())
      | Some e \<Rightarrow> ([], Inl e))"

section \<open>services/openai/validation.py\<close>

text \<open>
  \<^verbatim>\<open>OpenAIValidator.fallback\<close>: one model call whose user message embeds the transcript and
  the invalid output; the content of the answer goes through \<^verbatim>\<open>json.loads\<close>; every
  exception is caught, printed and turned into \<^verbatim>\<open>(False, None)\<close>.
\<close>

definition fallback_prompt :: "string \<Rightarrow> string \<Rightarrow> string" where
  "fallback_prompt transcript raw_response =
     ''Transcript: '' @ transcript @ [CHR 0x0A] @ ''Invalid output: '' @ raw_response"

definition fallback :: "world \<Rightarrow> string \<Rightarrow> string \<Rightarrow> (bool \<times> json) res" where
  "fallback w transcript raw_response =
     bind_res (emit (ChatCreate (fallback_prompt transcript raw_response))) (\<lambda>_.
       case chat_completion w (fallback_prompt transcript raw_response) of
         Inl e \<Rightarrow> bind_res (emit (Print (LogFallbackError e))) (\<lambda>_. return_res (False, JNull))
       | Inr fixed \<Rightarrow>
           (case loads_value w fixed of
              Inl e \<Rightarrow>
                bind_res (emit (Print (LogFallbackError e))) (\<lambda>_. return_res (False, JNull))
            | Inr fixed_parsed \<Rightarrow> return_res (True, fixed_parsed)))"

section \<open>utils/validation.py, the repair path\<close>

text \<open>
  \<^verbatim>\<open>handle_invalid_response\<close> returns the repaired value or \<^verbatim>\<open>None\<close>. The transcript is a
  str or \<^verbatim>\<open>None\<close>; \<^verbatim>\<open>if transcript:\<close> holds for a non-empty str only.
\<close>

definition handle_invalid_response :: "world \<Rightarrow> string \<Rightarrow> string option \<Rightarrow> json res" where
  "handle_invalid_response w response_text transcript =
     bind_res (lift (get_validation_error_details w response_text)) (\<lambda>error.
     bind_res (emit (Print (LogInvalidReason error))) (\<lambda>_.
       case transcript of
         None \<Rightarrow> return_res JNull
       | Some t \<Rightarrow>
           if t = [] then return_res JNull
           else
             bind_res (emit (Print LogAttemptFallback)) (\<lambda>_.
             bind_res (fallback w t response_text) (\<lambda>(success, fixed_json).
               if success then
                 bind_res (emit (Print LogRecovered)) (\<lambda>_.
                 bind_res (emit (Print (LogValue fixed_json))) (\<lambda>_.
                   return_res fixed_json))
               else
                 bind_res (emit (Print LogFallbackFailed)) (\<lambda>_. return_res JNull)))))"

section \<open>services/mqtt/mqtt_handler.py\<close>

text \<open>
  \<^verbatim>\<open>MQTTHandler.dispatch\<close>: one \<^verbatim>\<open>publish\<close> and one printed line per element of the target, to
  the topic \<^verbatim>\<open>f"{device}/{color}"\<close>.
\<close>

definition topic_of :: "world \<Rightarrow> json \<Rightarrow> json \<Rightarrow> string" where
  "topic_of w device color = format_value w device @ ''/'' @ format_value w color"

definition payload_of :: "json \<Rightarrow> string" where
  "payload_of action = (if action = JStr ''turn_on'' then ''ON'' else ''OFF'')"

fun publish_each :: "world \<Rightarrow> json \<Rightarrow> json \<Rightarrow> json list \<Rightarrow> unit res" where
  "publish_each w action device [] = return_res ()"
| "publish_each w action device (color # rest) =
     bind_res (publish_call w (topic_of w device color) (payload_of action)) (\<lambda>_.
     bind_res (emit (Print (LogMqtt (topic_of w device color) (payload_of action)))) (\<lambda>_.
       publish_each w action device rest))"

definition dispatch :: "world \<Rightarrow> json \<Rightarrow> unit res" where
  "dispatch w command =
     bind_res (lift (py_get command ''action'')) (\<lambda>action.
     bind_res (lift (py_get command ''device'')) (\<lambda>device.
     bind_res (lift (py_get command ''target'')) (\<lambda>targets.
     bind_res (lift (py_iter (case targets of JStr s \<Rightarrow> JArr [JStr s] | _ \<Rightarrow> targets)))
       (\<lambda>colors. publish_each w action device colors))))"

section \<open>utils/response_parser.py\<close>

text \<open>
  \<^verbatim>\<open>ResponseParser.process\<close>. The dispatcher is \<^verbatim>\<open>None\<close> or an object with a \<^verbatim>\<open>dispatch\<close>
  method. \<open>recover\<close> is the \<^verbatim>\<open>if not valid:\<close> block: it yields the value bound to
  \<^verbatim>\<open>parsed\<close> afterwards, or nothing when the block returns from \<^verbatim>\<open>process\<close>.
\<close>

definition recover :: "world \<Rightarrow> string \<Rightarrow> string option \<Rightarrow> json option res" where
  "recover w raw_content transcript =
     bind_res (emit (Print LogValidationFailed)) (\<lambda>_.
     bind_res (handle_invalid_response w raw_content transcript) (\<lambda>fixed.
       if \<not> truthy fixed then bind_res (emit (Print LogDropped)) (\<lambda>_. return_res None)
       else bind_res (lift (loads_value w fixed)) (\<lambda>parsed. return_res (Some parsed))))"

definition process ::
  "world \<Rightarrow> (json \<Rightarrow> unit res) option \<Rightarrow> string \<Rightarrow> string option \<Rightarrow> unit res" where
  "process w dispatcher raw_content transcript =
     bind_res (lift (is_valid_command_structure w raw_content)) (\<lambda>(valid, parsed0).
     bind_res (if \<not> valid then recover w raw_content transcript else return_res (Some parsed0))
       (\<lambda>r. case r of
          None \<Rightarrow> return_res ()
        | Some parsed \<Rightarrow>
            bind_res (lift (py_get parsed ''speak'')) (\<lambda>speak.
            bind_res (lift (py_get parsed ''command'')) (\<lambda>command.
            bind_res (emit (Print (LogSpeak speak))) (\<lambda>_.
            bind_res (emit (Print (LogCommand command))) (\<lambda>_.
              case dispatcher of
                None \<Rightarrow> return_res ()
              | Some d \<Rightarrow> d command))))))"

section \<open>services/openai/realtime.py\<close>

text \<open>
  The fields of \<^verbatim>\<open>OpenAIRealtimeClient\<close> that the response loop reads or writes
  (\<^verbatim>\<open>last_transcript\<close> starts as \<^verbatim>\<open>None\<close> and no method assigns it). An exception leaves the
  object as it is at that moment, so a step returns the state along with the exception.
\<close>

record client =
  json_buffer :: string
  last_transcript :: "string option"

text \<open>
  \<^verbatim>\<open>publish_payload\<close> connects a new MQTT client, publishes the compact JSON of the payload
  to \<^verbatim>\<open>voice/commands\<close> and disconnects; \<open>mqtt_publish\<close> answers for the three calls.
\<close>

definition publish_payload :: "world \<Rightarrow> json \<Rightarrow> unit res" where
  "publish_payload w payload = publish_call w ''voice/commands'' (json_dumps w payload)"

text \<open>\<^verbatim>\<open>validate_payload\<close>, the structural check of the client.\<close>

definition validate_payload :: "json \<Rightarrow> bool" where
  "validate_payload payload =
     (case payload of
        JObj kvs \<Rightarrow>
          (case map_of kvs ''speak'' of
             None \<Rightarrow> False
           | Some speak \<Rightarrow>
               (case map_of kvs ''command'' of
                  None \<Rightarrow> False
                | Some cmd \<Rightarrow>
                    (case speak of
                       JStr s \<Rightarrow>
                         (case cmd of
                            JNull \<Rightarrow> True
                          | JObj ckvs \<Rightarrow>
                              list_all (\<lambda>k. map_of ckvs k \<noteq> None)
                                [''action'', ''device'', ''target'']
                          | _ \<Rightarrow> False)
                     | _ \<Rightarrow> False)))
      | _ \<Rightarrow> False)"

text \<open>
  One round of the loop of \<^verbatim>\<open>_handle_responses\<close>, on the frame \<open>raw\<close>: the effects, the
  exception that leaves the loop (if any) and the client afterwards.
\<close>

definition append_fragment ::
  "client \<Rightarrow> effect list \<Rightarrow> json \<Rightarrow> effect list \<times> exn option \<times> client" where
  "append_fragment s effs frag =
     (case frag of
        JStr f \<Rightarrow> (effs, None, s\<lparr>json_buffer := json_buffer s @ f\<rparr>)
      | _ \<Rightarrow> (effs, Some TypeError, s))"

definition response_done :: "world \<Rightarrow> client \<Rightarrow> effect list \<times> exn option \<times> client" where
  "response_done w s =
     (if json_buffer s = [] then ([Print LogBufferEmpty], None, s\<lparr>json_buffer := []\<rparr>)
      else
        (case json_loads w (json_buffer s) of
           Inl e \<Rightarrow>
             ([Print (LogParseFailed e), Print (LogBufferWas (json_buffer s))], None,
              s\<lparr>json_buffer := []\<rparr>)
         | Inr payload \<Rightarrow>
             (case publish_payload w payload of
                (effs, Inl e) \<Rightarrow> (Print (LogParsedPayload payload) # effs, Some e, s)
              | (effs, Inr u) \<Rightarrow>
                  (Print (LogParsedPayload payload) # effs, None, s\<lparr>json_buffer := []\<rparr>))))"

definition handle_message ::
  "world \<Rightarrow> client \<Rightarrow> string \<Rightarrow> effect list \<times> exn option \<times> client" where
  "handle_message w s raw =
     (case json_loads w raw of
        Inl e \<Rightarrow> ([], Some e, s)
      | Inr msg \<Rightarrow>
          (case py_get msg ''type'' of
             Inl e \<Rightarrow> ([], Some e, s)
           | Inr msg_type \<Rightarrow>
               if msg_type = JStr ''response.content_part.delta'' then
                 (case py_get_default msg ''content'' (JStr []) of
                    Inl e \<Rightarrow> ([Print (LogMessageType msg_type)], Some e, s)
                  | Inr frag \<Rightarrow>
                      append_fragment s
                        [Print (LogMessageType msg_type), Print (LogDelta frag)] frag)
               else if msg_type = JStr ''response.content_part.done'' then
                 (case py_get_default msg ''content'' (JStr []) of
                    Inl e \<Rightarrow> ([Print (LogMessageType msg_type)], Some e, s)
                  | Inr frag \<Rightarrow>
                      append_fragment s
                        [Print (LogMessageType msg_type), Print (LogFinalFragment frag)] frag)
               else if msg_type = JStr ''response.done'' then
                 (case response_done w s of
                    (effs, r, s') \<Rightarrow> (Print (LogMessageType msg_type) # effs, r, s'))
               else ([Print (LogMessageType msg_type)], None, s)))"

text \<open>The loop over the frames received, left at the first exception.\<close>

fun handle_responses ::
  "world \<Rightarrow> client \<Rightarrow> string list \<Rightarrow> effect list \<times> exn option \<times> client" where
  "handle_responses w s [] = ([], None, s)"
| "handle_responses w s (raw # rest) =
     (case handle_message w s raw of
        (effs, Some e, s') \<Rightarrow> (effs, Some e, s')
      | (effs, None, s') \<Rightarrow>
          (case handle_responses w s' rest of
             (effs', r, s'') \<Rightarrow> (effs @ effs', r, s'')))"

section \<open>The payload as the specification describes it\<close>

text \<open>
  The specification's words for a valid Turn Payload, written down independently of the
  schema: a top-level object with a string \<^verbatim>\<open>speak\<close> and a \<^verbatim>\<open>command\<close> that is null or an
  object with \<^verbatim>\<open>action\<close>, \<^verbatim>\<open>device\<close> and \<^verbatim>\<open>target\<close>, each from its enumeration, the target
  being one colour or an array of one to three colours without duplicates.
\<close>

definition spec_target :: "json \<Rightarrow> bool" where
  "spec_target t =
     (case t of
        JStr s \<Rightarrow> s \<in> {''red'', ''green'', ''blue''}
      | JArr xs \<Rightarrow>
          1 \<le> length xs \<and> length xs \<le> 3 \<and> distinct xs \<and>
          list_all (\<lambda>x. x \<in> {JStr ''red'', JStr ''green'', JStr ''blue''}) xs
      | _ \<Rightarrow> False)"

definition spec_command :: "json \<Rightarrow> bool" where
  "spec_command c =
     (case c of
        JNull \<Rightarrow> True
      | JObj ckvs \<Rightarrow>
          (case (map_of ckvs ''action'', map_of ckvs ''device'', map_of ckvs ''target'') of
             (Some a, Some d, Some t) \<Rightarrow>
               a \<in> {JStr ''turn_on'', JStr ''turn_off'', JStr ''set_brightness'',
                    JStr ''set_temperature'', JStr ''lock'', JStr ''unlock''} \<and>
               d \<in> {JStr ''lights'', JStr ''thermostat'', JStr ''door'', JStr ''fan''} \<and>
               spec_target t
           | _ \<Rightarrow> False)
      | _ \<Rightarrow> False)"

definition spec_turn_payload :: "json \<Rightarrow> bool" where
  "spec_turn_payload p =
     (case p of
        JObj kvs \<Rightarrow>
          (case (map_of kvs ''speak'', map_of kvs ''command'') of
             (Some (JStr s), Some c) \<Rightarrow> spec_command c
           | _ \<Rightarrow> False)
      | _ \<Rightarrow> False)"

section \<open>A world for concrete runs\<close>

text \<open>
  The decoder of this world knows the texts below, with the values \<^verbatim>\<open>json.loads\<close> gives
  for them, and reports the text \<^verbatim>\<open>{invalid\<close> (and any text it does not know) as malformed;
  its encoder is the inverse on those values. The model answers every repair request with
  \<^verbatim>\<open>{"foo":1}\<close>, and the MQTT client takes every message.
\<close>

definition hi_text :: string where
  \<open>hi_text = ''{"speak":"hi","command":null}''\<close>

definition hi_payload :: json where
  "hi_payload = JObj [(''speak'', JStr ''hi''), (''command'', JNull)]"

definition lights_text :: string where
  \<open>lights_text =
     ''{"speak":"ok","command":{"action":"turn_on","device":"lights","target":["red","blue"]}}''\<close>

definition lights_command :: json where
  "lights_command =
     JObj [(''action'', JStr ''turn_on''), (''device'', JStr ''lights''),
           (''target'', JArr [JStr ''red'', JStr ''blue''])]"

definition lights_payload :: json where
  "lights_payload = JObj [(''speak'', JStr ''ok''), (''command'', lights_command)]"

definition red_red_text :: string where
  \<open>red_red_text =
     ''{"speak":"ok","command":{"action":"turn_on","device":"lights","target":["red","red"]}}''\<close>

definition red_red_payload :: json where
  "red_red_payload =
     JObj [(''speak'', JStr ''ok''),
           (''command'',
              JObj [(''action'', JStr ''turn_on''), (''device'', JStr ''lights''),
                    (''target'', JArr [JStr ''red'', JStr ''red''])])]"

definition explode_payload :: json where
  "explode_payload =
     JObj [(''speak'', JStr ''boom''),
           (''command'',
              JObj [(''action'', JStr ''explode''), (''device'', JStr ''lights''),
                    (''target'', JStr ''red'')])]"

definition foo_text :: string where
  \<open>foo_text = ''{"foo":1}''\<close>

definition foo_value :: json where
  "foo_value = JObj [(''foo'', JInt 1)]"

definition delta_frame :: string where
  \<open>delta_frame = ''{"type":"response.content_part.delta","content":"{invalid"}''\<close>

definition delta_message :: json where
  "delta_message =
     JObj [(''type'', JStr ''response.content_part.delta''), (''content'', JStr ''{invalid'')]"

definition done_frame :: string where
  \<open>done_frame = ''{"type":"response.done"}''\<close>

definition done_message :: json where
  "done_message = JObj [(''type'', JStr ''response.done'')]"

definition sample_loads :: "string \<Rightarrow> exn + json" where
  "sample_loads text =
     (if text = hi_text then Inr hi_payload
      else if text = lights_text then Inr lights_payload
      else if text = red_red_text then Inr red_red_payload
      else if text = foo_text then Inr foo_value
      else if text = delta_frame then Inr delta_message
      else if text = done_frame then Inr done_message
      else Inl (JSONDecodeError ''Expecting property name enclosed in double quotes''))"

definition sample_dumps :: "json \<Rightarrow> string" where
  "sample_dumps v =
     (if v = hi_payload then hi_text
      else if v = lights_payload then lights_text
      else if v = red_red_payload then red_red_text
      else if v = foo_value then foo_text
      else ''null'')"

definition sample_world :: world where
  "sample_world =
     \<lparr>json_loads = sample_loads,
      json_dumps = sample_dumps,
      py_str = (\<lambda>v. ''None''),
      schema_error_message = (\<lambda>v. ''is not valid under any of the given schemas''),
      chat_completion = (\<lambda>prompt. Inr (JStr foo_text)),
      mqtt_publish = (\<lambda>topic payload. None)\<rparr>"

definition fresh_client :: client where
  "fresh_client = \<lparr>json_buffer = [], last_transcript = None\<rparr>"

text \<open>
  Two more worlds. In \<open>refusing_world\<close> the broker is unreachable: every publish raises.
  \<open>stdlib_world\<close> adds two answers of CPython's \<^verbatim>\<open>json.loads\<close> on texts that are not JSON:
  on a thousand opening brackets it raises \<^verbatim>\<open>RecursionError\<close>, which is not a
  \<open>JSONDecodeError\<close>, and it reads the literal \<^verbatim>\<open>NaN\<close> as a float.
\<close>

definition refusing_world :: world where
  "refusing_world =
     sample_world\<lparr>mqtt_publish := (\<lambda>topic payload. Some (OtherError ''ConnectionRefusedError''))\<rparr>"

definition deep_text :: string where
  "deep_text = replicate 1000 CHR ''[''"

definition nan_text :: string where
  \<open>nan_text = ''{"speak":"hi","command":null,"x":NaN}''\<close>

definition nan_payload :: json where
  "nan_payload = JObj [(''speak'', JStr ''hi''), (''command'', JNull), (''x'', JFloat NaN)]"

definition stdlib_loads :: "string \<Rightarrow> exn + json" where
  "stdlib_loads text =
     (if text = deep_text then Inl (OtherError ''RecursionError'')
      else if text = nan_text then Inr nan_payload
      else sample_loads text)"

definition stdlib_world :: world where
  "stdlib_world = sample_world\<lparr>json_loads := stdlib_loads\<rparr>"

section \<open>The schema accepts exactly the payloads of the specification\<close>

lemma string_enum_iff:
  "list_all (\<lambda>kw. satisfies kw x) [KType TString, KEnum vals] =
     (case x of JStr s \<Rightarrow> JStr s \<in> set vals | _ \<Rightarrow> False)"
  by (cases x) simp_all

lemma color_iff:
  "list_all (\<lambda>kw. satisfies kw x) [KType TString, KEnum color_enum] =
     (x \<in> {JStr ''red'', JStr ''green'', JStr ''blue''})"
  unfolding string_enum_iff by (cases x) (auto simp: color_enum_def)

lemma valid_target_iff:
  "list_all (\<lambda>kw. satisfies kw t)
      [KAnyOf
         [[KType TString, KEnum color_enum],
          [KType TArray, KItems [KType TString, KEnum color_enum],
           KMinItems 1, KMaxItems 3, KUniqueItems True]]] = spec_target t"
proof (cases t)
  case (JStr s)
  then show ?thesis
    using color_iff [of "JStr s"] by (auto simp: spec_target_def)
next
  case (JArr xs)
  have "list_all (\<lambda>x. list_all (\<lambda>kw. satisfies kw x) [KType TString, KEnum color_enum]) xs
        = list_all (\<lambda>x. x \<in> {JStr ''red'', JStr ''green'', JStr ''blue''}) xs"
    unfolding color_iff ..
  with JArr show ?thesis
    by (auto simp: spec_target_def)
qed (simp_all add: spec_target_def color_enum_def)

lemma valid_command_iff:
  "list_all (\<lambda>kw. satisfies kw c) [KAnyOf [command_object_schema, [KType TNull]]]
     = spec_command c"
proof (cases c)
  case (JObj ckvs)
  show ?thesis
    unfolding JObj command_object_schema_def
    using valid_target_iff string_enum_iff
    by (auto simp: spec_command_def action_enum_def device_enum_def
        split: option.splits json.splits)
qed (simp_all add: spec_command_def command_object_schema_def)

lemma valid_payload_iff:
  "jsonschema_valid smart_home_command_schema p = spec_turn_payload p"
proof (cases p)
  case (JObj kvs)
  show ?thesis
    unfolding JObj smart_home_command_schema_def jsonschema_valid_def
    using valid_command_iff
    by (auto simp: spec_turn_payload_def split: option.splits json.splits)
qed (simp_all add: spec_turn_payload_def smart_home_command_schema_def jsonschema_valid_def)

section \<open>The validator\<close>

lemma accepted_when_valid:
  assumes "json_loads w text = Inr p" and "jsonschema_valid smart_home_command_schema p"
  shows "is_valid_command_structure w text = Inr (True, p)"
  using assms by (simp add: is_valid_command_structure_def validate_def)

lemma rejected_when_invalid:
  assumes "json_loads w text = Inr p" and "\<not> jsonschema_valid smart_home_command_schema p"
  shows "is_valid_command_structure w text = Inr (False, JNull)"
  using assms by (simp add: is_valid_command_structure_def validate_def)

subsection \<open>The sample world, evaluated\<close>

lemmas sample_texts = hi_text_def lights_text_def red_red_text_def foo_text_def
  delta_frame_def done_frame_def

lemma sample_loads_simps:
  "sample_loads hi_text = Inr hi_payload"
  "sample_loads lights_text = Inr lights_payload"
  "sample_loads red_red_text = Inr red_red_payload"
  "sample_loads foo_text = Inr foo_value"
  "sample_loads delta_frame = Inr delta_message"
  "sample_loads done_frame = Inr done_message"
  \<open>sample_loads ''{invalid'' =
     Inl (JSONDecodeError ''Expecting property name enclosed in double quotes'')\<close>
  by (simp_all add: sample_loads_def sample_texts)

lemma sample_dumps_simps:
  "sample_dumps hi_payload = hi_text"
  "sample_dumps lights_payload = lights_text"
  "sample_dumps red_red_payload = red_red_text"
  "sample_dumps foo_value = foo_text"
  by (simp_all add: sample_dumps_def hi_payload_def lights_payload_def red_red_payload_def
      foo_value_def lights_command_def)

lemma sample_world_simps:
  "json_loads sample_world = sample_loads"
  "json_dumps sample_world = sample_dumps"
  "chat_completion sample_world prompt = Inr (JStr foo_text)"
  "mqtt_publish sample_world topic payload = None"
  by (simp_all add: sample_world_def)

lemma spec_samples:
  "spec_turn_payload hi_payload"
  "spec_turn_payload lights_payload"
  "\<not> spec_turn_payload red_red_payload"
  "\<not> spec_turn_payload explode_payload"
  "\<not> spec_turn_payload foo_value"
  by (simp_all add: spec_turn_payload_def spec_command_def spec_target_def hi_payload_def
      lights_payload_def lights_command_def red_red_payload_def explode_payload_def
      foo_value_def)

subsection \<open>Round trip\<close>

text \<open>
  C5: for every Turn Payload \<open>P\<close> that the specification calls valid, validating the
  serialization of \<open>P\<close> succeeds and returns \<open>P\<close> itself. The serialization is
  \<^verbatim>\<open>json.dumps\<close>, and the one fact used about the json module is that \<^verbatim>\<open>json.loads\<close> reads
  this text back as \<open>P\<close>. By \<open>valid_payload_iff\<close> the payloads concerned are exactly those
  the schema accepts.
\<close>

theorem validate_roundtrip:
  assumes "spec_turn_payload P" and "json_loads w (json_dumps w P) = Inr P"
  shows "is_valid_command_structure w (json_dumps w P) = Inr (True, P)"
  using assms by (simp add: accepted_when_valid valid_payload_iff)

theorem validate_roundtrip_witness:
  "spec_turn_payload lights_payload \<and>
   json_loads sample_world (json_dumps sample_world lights_payload) = Inr lights_payload \<and>
   is_valid_command_structure sample_world (json_dumps sample_world lights_payload)
     = Inr (True, lights_payload)"
proof -
  have a: "spec_turn_payload lights_payload" by (rule spec_samples)
  have b: "json_loads sample_world (json_dumps sample_world lights_payload) = Inr lights_payload"
    by (simp add: sample_world_simps sample_dumps_simps sample_loads_simps)
  from a b validate_roundtrip [OF a b] show ?thesis by simp
qed

subsection \<open>Malformed text\<close>

text \<open>
  C6: for every text on which \<^verbatim>\<open>json.loads\<close> raises \<open>JSONDecodeError\<close>,
  \<^verbatim>\<open>is_valid_command_structure\<close> raises nothing and returns its failure result
  \<^verbatim>\<open>(False, None)\<close>, and \<^verbatim>\<open>get_validation_error_details\<close> names the failure a JSON decode
  error, with the decoder's message.
\<close>

theorem malformed_json_is_a_failure_result:
  assumes "json_loads w text = Inl (JSONDecodeError m)"
  shows "is_valid_command_structure w text = Inr (False, JNull) \<and>
         get_validation_error_details w text = Inr (JStr (''JSON Decode Error: '' @ m))"
  using assms
  by (simp add: is_valid_command_structure_def get_validation_error_details_def error_details_def)

theorem malformed_json_is_a_failure_result_witness:
  \<open>json_loads sample_world ''{invalid''
     = Inl (JSONDecodeError ''Expecting property name enclosed in double quotes'') \<and>
   is_valid_command_structure sample_world ''{invalid'' = Inr (False, JNull) \<and>
   get_validation_error_details sample_world ''{invalid''
     = Inr (JStr ''JSON Decode Error: Expecting property name enclosed in double quotes'')\<close>
proof -
  have a: \<open>json_loads sample_world ''{invalid''
     = Inl (JSONDecodeError ''Expecting property name enclosed in double quotes'')\<close>
    by (simp add: sample_world_simps sample_loads_simps)
  from a malformed_json_is_a_failure_result [OF a] show ?thesis by simp
qed

text \<open>
  The \<^verbatim>\<open>except\<close> clause names \<open>JSONDecodeError\<close> and \<open>ValidationError\<close> only, so the
  statement does not extend to every text that is not JSON. The text of a thousand opening
  brackets, and nothing else, is not JSON; \<^verbatim>\<open>json.loads\<close> raises \<^verbatim>\<open>RecursionError\<close> on it and
  the validator lets the exception through. The text with the literal \<^verbatim>\<open>NaN\<close> is not JSON
  either; \<^verbatim>\<open>json.loads\<close> reads it, the schema puts no constraint on the extra key, and the
  validator returns \<^verbatim>\<open>(True, parsed)\<close>.
\<close>

lemma other_exceptions_pass_through:
  assumes "json_loads w text = Inl e"
    and "\<forall>m. e \<noteq> JSONDecodeError m" and "\<forall>m. e \<noteq> ValidationError m"
  shows "is_valid_command_structure w text = Inl e"
  using assms by (cases e) (simp_all add: is_valid_command_structure_def)

lemma nan_text_is_not_deep_text: "nan_text \<noteq> deep_text"
proof
  assume "nan_text = deep_text"
  then have "set nan_text = set deep_text" by simp
  then show False by (simp add: nan_text_def deep_text_def)
qed

theorem malformed_text_escapes_the_validator:
  "set deep_text = {CHR ''[''} \<and>
   is_valid_command_structure stdlib_world deep_text = Inl (OtherError ''RecursionError'') \<and>
   is_valid_command_structure stdlib_world nan_text = Inr (True, nan_payload)"
proof -
  have l: "json_loads stdlib_world = stdlib_loads"
    by (simp add: stdlib_world_def)
  have a: "set deep_text = {CHR ''[''}"
    by (simp add: deep_text_def)
  have b: "is_valid_command_structure stdlib_world deep_text = Inl (OtherError ''RecursionError'')"
    by (rule other_exceptions_pass_through) (simp_all add: l stdlib_loads_def)
  have "spec_turn_payload nan_payload"
    by (simp add: spec_turn_payload_def spec_command_def nan_payload_def)
  then have c: "is_valid_command_structure stdlib_world nan_text = Inr (True, nan_payload)"
    by (intro accepted_when_valid)
       (simp_all add: l stdlib_loads_def nan_text_is_not_deep_text valid_payload_iff)
  from a b c show ?thesis by simp
qed

subsection \<open>Target arrays\<close>

lemma target_of_valid_payload:
  assumes "jsonschema_valid smart_home_command_schema (JObj kvs)"
    and "map_of kvs ''command'' = Some (JObj ckvs)"
    and "map_of ckvs ''target'' = Some t"
  shows "spec_target t"
  using assms unfolding valid_payload_iff
  by (auto simp: spec_turn_payload_def spec_command_def split: option.splits json.splits)

text \<open>
  C7: a payload whose \<^verbatim>\<open>command.target\<close> is an array with a duplicate element fails schema
  validation, and \<^verbatim>\<open>is_valid_command_structure\<close> returns \<^verbatim>\<open>(False, None)\<close> for every text that
  decodes to it, whatever the elements are; the target array of a valid payload has one
  to three distinct elements, each one of the colours.
\<close>

theorem duplicate_target_fails_validation:
  assumes "map_of kvs ''command'' = Some (JObj ckvs)"
    and "map_of ckvs ''target'' = Some (JArr xs)"
  shows "(\<not> distinct xs \<longrightarrow>
            \<not> jsonschema_valid smart_home_command_schema (JObj kvs) \<and>
            (\<forall>w text. json_loads w text = Inr (JObj kvs) \<longrightarrow>
               is_valid_command_structure w text = Inr (False, JNull))) \<and>
         (jsonschema_valid smart_home_command_schema (JObj kvs) \<longrightarrow>
            1 \<le> length xs \<and> length xs \<le> 3 \<and> distinct xs \<and>
            set xs \<subseteq> {JStr ''red'', JStr ''green'', JStr ''blue''})"
proof -
  have bounds: "1 \<le> length xs \<and> length xs \<le> 3 \<and> distinct xs \<and>
      set xs \<subseteq> {JStr ''red'', JStr ''green'', JStr ''blue''}"
    if "jsonschema_valid smart_home_command_schema (JObj kvs)"
    using target_of_valid_payload [OF that assms]
    by (auto simp: spec_target_def list_all_iff)
  then have "\<not> jsonschema_valid smart_home_command_schema (JObj kvs)" if "\<not> distinct xs"
    using that by blast
  with bounds show ?thesis
    by (auto simp: rejected_when_invalid)
qed

theorem duplicate_target_fails_validation_witness:
  "json_loads sample_world red_red_text = Inr red_red_payload \<and>
   \<not> jsonschema_valid smart_home_command_schema red_red_payload \<and>
   is_valid_command_structure sample_world red_red_text = Inr (False, JNull) \<and>
   list_all (\<lambda>x. satisfies (KEnum color_enum) x) [JStr ''red'', JStr ''red''] \<and>
   jsonschema_valid smart_home_command_schema lights_payload"
proof -
  have l: "json_loads sample_world red_red_text = Inr red_red_payload"
    by (simp add: sample_world_simps sample_loads_simps)
  have "\<not> jsonschema_valid smart_home_command_schema red_red_payload \<and>
        (\<forall>w text. json_loads w text = Inr red_red_payload \<longrightarrow>
           is_valid_command_structure w text = Inr (False, JNull))"
    using duplicate_target_fails_validation
      [of "[(''speak'', JStr ''ok''),
            (''command'',
               JObj [(''action'', JStr ''turn_on''), (''device'', JStr ''lights''),
                     (''target'', JArr [JStr ''red'', JStr ''red''])])]"
          "[(''action'', JStr ''turn_on''), (''device'', JStr ''lights''),
            (''target'', JArr [JStr ''red'', JStr ''red''])]"
          "[JStr ''red'', JStr ''red'']"]
    by (simp add: red_red_payload_def)
  with l show ?thesis
    by (simp add: color_enum_def valid_payload_iff spec_samples)
qed

section \<open>The structural check of the client\<close>

text \<open>
  C10: \<^verbatim>\<open>validate_payload\<close> returns \<^verbatim>\<open>True\<close> for every dict with a string \<^verbatim>\<open>speak\<close> and a
  \<^verbatim>\<open>command\<close> that is \<^verbatim>\<open>None\<close> or a dict with the keys \<^verbatim>\<open>action\<close>, \<^verbatim>\<open>device\<close> and \<^verbatim>\<open>target\<close>,
  whatever their values; the payload with the action \<^verbatim>\<open>explode\<close> passes it and fails the
  command schema.
\<close>

theorem validate_payload_checks_shape_only:
  "(map_of kvs ''speak'' = Some (JStr s) \<and> map_of kvs ''command'' = Some JNull
      \<longrightarrow> validate_payload (JObj kvs)) \<and>
   (map_of kvs ''speak'' = Some (JStr s) \<and> map_of kvs ''command'' = Some (JObj ckvs) \<and>
    map_of ckvs ''action'' = Some a \<and> map_of ckvs ''device'' = Some d \<and>
    map_of ckvs ''target'' = Some t
      \<longrightarrow> validate_payload (JObj kvs)) \<and>
   validate_payload explode_payload \<and>
   \<not> jsonschema_valid smart_home_command_schema explode_payload"
  by (simp add: validate_payload_def explode_payload_def valid_payload_iff
      spec_turn_payload_def spec_command_def)

theorem validate_payload_checks_shape_only_witness:
  "validate_payload hi_payload \<and>
   validate_payload explode_payload \<and>
   \<not> jsonschema_valid smart_home_command_schema explode_payload \<and>
   \<not> satisfies (KEnum action_enum) (JStr ''explode'')"
  using validate_payload_checks_shape_only
    [of "[(''speak'', JStr ''hi''), (''command'', JNull)]" "''hi''" "[]" JNull JNull JNull]
  by (simp add: hi_payload_def action_enum_def)

section \<open>The MQTT dispatcher\<close>

lemma publish_each_accepted:
  assumes "\<forall>c \<in> set colors. mqtt_publish w (topic_of w device c) (payload_of action) = None"
  shows "publish_each w action device colors =
           (concat (map (\<lambda>c. [MqttPublish (topic_of w device c) (payload_of action),
                               Print (LogMqtt (topic_of w device c) (payload_of action))])
                        colors),
            Inr ())"
  using assms
  by (induction colors)
     (simp_all add: bind_res_def return_res_def emit_def publish_call_def)

text \<open>
  C9: for a command dict whose target is a str or a list, \<^verbatim>\<open>dispatch\<close> treats the str as
  a list of one element and makes exactly one \<^verbatim>\<open>publish\<close> call per element, in order,
  each followed by its printed line (the MQTT client taking every message); the topic is
  \<^verbatim>\<open>device/color\<close> and the payload is \<^verbatim>\<open>ON\<close> when the action is \<^verbatim>\<open>turn_on\<close> and \<^verbatim>\<open>OFF\<close> for
  every other action, a missing one included.
\<close>

theorem dispatch_one_message_per_target:
  assumes "map_of cmd ''target'' = Some target"
    and "target = JStr s \<and> colors = [JStr s] \<or> target = JArr colors"
    and "action = (case map_of cmd ''action'' of Some a \<Rightarrow> a | None \<Rightarrow> JNull)"
    and "device = (case map_of cmd ''device'' of Some d \<Rightarrow> d | None \<Rightarrow> JNull)"
    and "\<forall>c \<in> set colors. mqtt_publish w (topic_of w device c) (payload_of action) = None"
  shows "dispatch w (JObj cmd) =
           (concat (map (\<lambda>c. [MqttPublish (topic_of w device c) (payload_of action),
                               Print (LogMqtt (topic_of w device c) (payload_of action))])
                        colors),
            Inr ()) \<and>
         payload_of action = (if action = JStr ''turn_on'' then ''ON'' else ''OFF'') \<and>
         (\<forall>d c. topic_of w (JStr d) (JStr c) = d @ ''/'' @ c)"
proof -
  have it: "py_iter (case target of JStr s \<Rightarrow> JArr [JStr s] | _ \<Rightarrow> target) = Inr colors"
    using assms(2) by (auto simp: py_iter_def)
  have "dispatch w (JObj cmd) = publish_each w action device colors"
    using assms(1,3,4) it
    by (simp add: dispatch_def bind_res_def lift_def py_get_def py_get_default_def
        split: option.splits)
  then show ?thesis
    using publish_each_accepted [OF assms(5)]
    by (simp add: payload_of_def topic_of_def format_value_def)
qed

theorem dispatch_one_message_per_target_witness:
  "dispatch sample_world lights_command =
     ([MqttPublish ''lights/red'' ''ON'', Print (LogMqtt ''lights/red'' ''ON''),
       MqttPublish ''lights/blue'' ''ON'', Print (LogMqtt ''lights/blue'' ''ON'')], Inr ()) \<and>
   dispatch sample_world
      (JObj [(''action'', JStr ''lock''), (''device'', JStr ''door''), (''target'', JStr ''green'')]) =
     ([MqttPublish ''door/green'' ''OFF'', Print (LogMqtt ''door/green'' ''OFF'')], Inr ())"
proof -
  have a: "dispatch sample_world lights_command =
     ([MqttPublish ''lights/red'' ''ON'', Print (LogMqtt ''lights/red'' ''ON''),
       MqttPublish ''lights/blue'' ''ON'', Print (LogMqtt ''lights/blue'' ''ON'')], Inr ())"
    using dispatch_one_message_per_target
      [of "[(''action'', JStr ''turn_on''), (''device'', JStr ''lights''),
            (''target'', JArr [JStr ''red'', JStr ''blue''])]"
          "JArr [JStr ''red'', JStr ''blue'']" "[]" "[JStr ''red'', JStr ''blue'']"
          "JStr ''turn_on''" "JStr ''lights''" sample_world]
    by (simp add: lights_command_def sample_world_simps payload_of_def topic_of_def
        format_value_def)
  have b: "dispatch sample_world
      (JObj [(''action'', JStr ''lock''), (''device'', JStr ''door''), (''target'', JStr ''green'')]) =
     ([MqttPublish ''door/green'' ''OFF'', Print (LogMqtt ''door/green'' ''OFF'')], Inr ())"
    using dispatch_one_message_per_target
      [of "[(''action'', JStr ''lock''), (''device'', JStr ''door''), (''target'', JStr ''green'')]"
          "JStr ''green''" "''green''" "[JStr ''green'']"
          "JStr ''lock''" "JStr ''door''" sample_world]
    by (simp add: sample_world_simps payload_of_def topic_of_def format_value_def)
  from a b show ?thesis by simp
qed

subsection \<open>Commands the dispatcher cannot serve\<close>

lemma dispatch_on_None:
  "dispatch w JNull = ([], Inl AttributeError)"
  by (simp add: dispatch_def bind_res_def lift_def py_get_def py_get_default_def)

lemma dispatch_target_not_iterable:
  assumes "map_of cmd ''target'' = None \<or> map_of cmd ''target'' = Some JNull \<or>
           map_of cmd ''target'' = Some (JBool b) \<or> map_of cmd ''target'' = Some (JInt i) \<or>
           map_of cmd ''target'' = Some (JFloat f)"
  shows "dispatch w (JObj cmd) = ([], Inl TypeError)"
  using assms
  by (auto simp: dispatch_def bind_res_def lift_def py_get_def py_get_default_def py_iter_def
      split: option.splits)

section \<open>The response loop\<close>

text \<open>
  C8: on a \<^verbatim>\<open>response.done\<close> frame that arrives while the buffer is empty, the loop prints
  that the buffer is empty, publishes nothing, raises nothing and leaves the client as it
  was, its buffer empty.
\<close>

theorem empty_turn_is_reported_and_dropped:
  assumes "json_loads w raw = Inr msg"
    and "py_get msg ''type'' = Inr (JStr ''response.done'')"
    and "json_buffer s = []"
  shows "handle_message w s raw =
           ([Print (LogMessageType (JStr ''response.done'')), Print LogBufferEmpty], None, s)"
  using assms by (simp add: handle_message_def response_done_def)

theorem empty_turn_is_reported_and_dropped_witness:
  "json_loads sample_world done_frame = Inr done_message \<and>
   py_get done_message ''type'' = Inr (JStr ''response.done'') \<and>
   json_buffer fresh_client = [] \<and>
   handle_message sample_world fresh_client done_frame =
     ([Print (LogMessageType (JStr ''response.done'')), Print LogBufferEmpty], None, fresh_client)"
proof -
  have a: "json_loads sample_world done_frame = Inr done_message"
    by (simp add: sample_world_simps sample_loads_simps)
  have b: "py_get done_message ''type'' = Inr (JStr ''response.done'')"
    by (simp add: py_get_def py_get_default_def done_message_def)
  have c: "json_buffer fresh_client = []"
    by (simp add: fresh_client_def)
  from a b c empty_turn_is_reported_and_dropped [OF a b c] show ?thesis by simp
qed

subsection \<open>Turn boundaries\<close>

lemma handle_responses_append:
  "handle_responses w s (xs @ ys) =
     (case handle_responses w s xs of
        (effs, Some e, s') \<Rightarrow> (effs, Some e, s')
      | (effs, None, s') \<Rightarrow>
          (case handle_responses w s' ys of (effs', r, s'') \<Rightarrow> (effs @ effs', r, s'')))"
proof (induction xs arbitrary: s)
  case Nil
  then show ?case by (simp split: prod.splits)
next
  case (Cons x xs)
  then show ?case
    by (simp split: prod.splits option.splits)
qed

lemma response_done_resets:
  assumes "response_done w s = (effs, None, s')"
  shows "json_buffer s' = []"
  using assms
  by (auto simp: response_done_def split: if_splits sum.splits prod.splits)

text \<open>
  The one way out of the \<^verbatim>\<open>response.done\<close> branch by an exception: the buffer was decoded
  and \<^verbatim>\<open>publish_payload\<close> raised. The assignment that resets the buffer is not reached.
\<close>

lemma response_done_raises_only_from_publish:
  assumes "response_done w s = (effs, Some e, s')"
  shows "\<exists>payload. json_buffer s \<noteq> [] \<and> json_loads w (json_buffer s) = Inr payload \<and>
           mqtt_publish w ''voice/commands'' (json_dumps w payload) = Some e \<and> s' = s"
  using assms
  by (auto simp: response_done_def publish_payload_def publish_call_def
      split: if_splits sum.splits prod.splits option.splits)

lemma turn_complete_resets:
  assumes "json_loads w raw = Inr msg"
    and "py_get msg ''type'' = Inr (JStr ''response.done'')"
    and "handle_message w s raw = (effs, None, s')"
  shows "json_buffer s' = []"
  using assms response_done_resets
  by (auto simp: handle_message_def split: prod.splits)

lemma sample_frames:
  "handle_message sample_world s delta_frame =
     ([Print (LogMessageType (JStr ''response.content_part.delta'')),
       Print (LogDelta (JStr ''{invalid''))], None,
      s\<lparr>json_buffer := json_buffer s @ ''{invalid''\<rparr>)"
  by (simp add: handle_message_def sample_world_simps sample_loads_simps delta_message_def
      py_get_def py_get_default_def append_fragment_def)

lemma sample_done_on_invalid:
  "handle_message sample_world \<lparr>json_buffer = ''{invalid'', last_transcript = None\<rparr> done_frame =
     ([Print (LogMessageType (JStr ''response.done'')),
       Print (LogParseFailed
                (JSONDecodeError ''Expecting property name enclosed in double quotes'')),
       Print (LogBufferWas ''{invalid'')], None, fresh_client)"
  by (simp add: handle_message_def response_done_def sample_world_simps sample_loads_simps
      done_message_def py_get_def py_get_default_def fresh_client_def)

lemma sample_turn:
  "handle_responses sample_world fresh_client [delta_frame, done_frame] =
     ([Print (LogMessageType (JStr ''response.content_part.delta'')),
       Print (LogDelta (JStr ''{invalid'')),
       Print (LogMessageType (JStr ''response.done'')),
       Print (LogParseFailed
                (JSONDecodeError ''Expecting property name enclosed in double quotes'')),
       Print (LogBufferWas ''{invalid'')], None, fresh_client)"
  using sample_done_on_invalid
  by (simp add: sample_frames fresh_client_def)

text \<open>
  Where the loop goes on after a \<^verbatim>\<open>response.done\<close> frame, the buffer is empty: in every run,
  at every such frame, either an exception has left the loop at that frame or before it, or
  the buffer is empty once the frame is processed, whether the turn was empty, failed to
  parse or was published, and the later frames are processed from that state.
\<close>

lemma buffer_is_empty_where_the_loop_goes_on:
  assumes "json_loads w raw = Inr msg"
    and "py_get msg ''type'' = Inr (JStr ''response.done'')"
  shows "case handle_responses w s (before @ [raw]) of
           (effs1, Some e, s1) \<Rightarrow>
             handle_responses w s (before @ raw # later) = (effs1, Some e, s1)
         | (effs1, None, s1) \<Rightarrow>
             json_buffer s1 = [] \<and>
             handle_responses w s (before @ raw # later) =
               (case handle_responses w s1 later of
                  (effs2, r, s2) \<Rightarrow> (effs1 @ effs2, r, s2))"
proof -
  have split: "before @ raw # later = (before @ [raw]) @ later" by simp
  have reset: "json_buffer s1 = []"
    if "handle_responses w s (before @ [raw]) = (effs1, None, s1)" for effs1 s1
  proof -
    obtain effs0 r0 s0 where b: "handle_responses w s before = (effs0, r0, s0)"
      by (cases "handle_responses w s before") auto
    obtain effs' r' s' where m: "handle_message w s0 raw = (effs', r', s')"
      by (cases "handle_message w s0 raw") auto
    from that b m have "r0 = None" "r' = None" "s1 = s'"
      by (auto simp: handle_responses_append split: option.splits)
    with m turn_complete_resets [OF assms] show ?thesis by simp
  qed
  show ?thesis
    unfolding split handle_responses_append [of w s "before @ [raw]" later]
    using reset by (auto split: prod.splits option.splits)
qed

text \<open>
  C4: the turn boundary at which the buffer is not reset. \<^verbatim>\<open>publish_payload\<close> is called in
  the \<^verbatim>\<open>else\<close> of the \<^verbatim>\<open>try\<close>, before the assignment that resets the buffer. When it raises
  on a \<^verbatim>\<open>response.done\<close> frame, the exception leaves \<^verbatim>\<open>_handle_responses\<close> with the text of
  the turn still in the buffer, and no later frame of that run is processed. The client
  object outlives the run (\<^verbatim>\<open>connect\<close> prints the failed task and returns, and \<^verbatim>\<open>main\<close> calls
  \<^verbatim>\<open>connect\<close> a second time on the same client), and the first fragment of the next run is
  appended to the text of the old turn.
\<close>

theorem failed_publish_leaves_the_buffer:
  assumes "json_loads w raw = Inr msg"
    and "py_get msg ''type'' = Inr (JStr ''response.done'')"
    and "json_buffer s \<noteq> []"
    and "json_loads w (json_buffer s) = Inr payload"
    and "mqtt_publish w ''voice/commands'' (json_dumps w payload) = Some e"
    and "json_loads w' frame =
           Inr (JObj [(''type'', JStr ''response.content_part.delta''), (''content'', JStr f)])"
  shows "handle_responses w s (raw # later) =
           ([Print (LogMessageType (JStr ''response.done'')), Print (LogParsedPayload payload)],
            Some e, s) \<and>
         handle_responses w' s [frame] =
           ([Print (LogMessageType (JStr ''response.content_part.delta'')),
             Print (LogDelta (JStr f))],
            None, s\<lparr>json_buffer := json_buffer s @ f\<rparr>)"
proof -
  have "handle_message w s raw =
          ([Print (LogMessageType (JStr ''response.done'')), Print (LogParsedPayload payload)],
           Some e, s)"
    using assms(1-5)
    by (simp add: handle_message_def response_done_def publish_payload_def publish_call_def)
  moreover have "handle_message w' s frame =
          ([Print (LogMessageType (JStr ''response.content_part.delta'')),
            Print (LogDelta (JStr f))],
           None, s\<lparr>json_buffer := json_buffer s @ f\<rparr>)"
    using assms(6)
    by (simp add: handle_message_def py_get_def py_get_default_def append_fragment_def)
  ultimately show ?thesis by simp
qed

theorem failed_publish_leaves_the_buffer_witness:
  \<open>handle_responses refusing_world \<lparr>json_buffer = hi_text, last_transcript = None\<rparr>
      [done_frame, delta_frame] =
     ([Print (LogMessageType (JStr ''response.done'')), Print (LogParsedPayload hi_payload)],
      Some (OtherError ''ConnectionRefusedError''),
      \<lparr>json_buffer = hi_text, last_transcript = None\<rparr>) \<and>
   handle_responses sample_world \<lparr>json_buffer = hi_text, last_transcript = None\<rparr> [delta_frame] =
     ([Print (LogMessageType (JStr ''response.content_part.delta'')),
       Print (LogDelta (JStr ''{invalid''))],
      None, \<lparr>json_buffer = hi_text @ ''{invalid'', last_transcript = None\<rparr>)\<close>
proof -
  have r: "json_loads refusing_world = sample_loads"
    "mqtt_publish refusing_world topic payload = Some (OtherError ''ConnectionRefusedError'')"
    for topic payload
    by (simp_all add: refusing_world_def sample_world_def)
  have a: "json_loads refusing_world done_frame = Inr done_message"
    by (simp add: r sample_loads_simps)
  have b: "py_get done_message ''type'' = Inr (JStr ''response.done'')"
    by (simp add: py_get_def py_get_default_def done_message_def)
  have c: "json_buffer \<lparr>json_buffer = hi_text, last_transcript = None\<rparr> \<noteq> []"
    by (simp add: hi_text_def)
  have d: "json_loads refusing_world (json_buffer \<lparr>json_buffer = hi_text, last_transcript = None\<rparr>)
             = Inr hi_payload"
    by (simp add: r sample_loads_simps)
  have e: "mqtt_publish refusing_world ''voice/commands'' (json_dumps refusing_world hi_payload)
             = Some (OtherError ''ConnectionRefusedError'')"
    by (rule r)
  have f: \<open>json_loads sample_world delta_frame =
      Inr (JObj [(''type'', JStr ''response.content_part.delta''), (''content'', JStr ''{invalid'')])\<close>
    by (simp add: sample_world_simps sample_loads_simps delta_message_def)
  from failed_publish_leaves_the_buffer [OF a b c d e f, of "[delta_frame]"]
  show ?thesis by simp
qed

subsection \<open>What the loop does with a completed turn\<close>

lemma handle_message_no_model_call:
  "ChatCreate p \<notin> set (fst (handle_message w s raw))"
  by (auto simp: handle_message_def response_done_def append_fragment_def publish_payload_def
      publish_call_def split: sum.splits if_splits prod.splits json.splits option.splits)

lemma handle_responses_no_model_call:
  "ChatCreate p \<notin> set (fst (handle_responses w s frames))"
proof (induction frames arbitrary: s)
  case Nil
  then show ?case by simp
next
  case (Cons raw frames)
  obtain effs r s' where m: "handle_message w s raw = (effs, r, s')"
    by (cases "handle_message w s raw") auto
  with handle_message_no_model_call [of p w s raw] have "ChatCreate p \<notin> set effs" by simp
  with m Cons.IH [of s'] show ?case
    by (cases r; cases "handle_responses w s' frames") auto
qed

text \<open>
  C2: what \<^verbatim>\<open>_handle_responses\<close> does on \<^verbatim>\<open>response.done\<close> with a non-empty buffer. It
  only decodes the buffer. A buffer that is not JSON is printed and dropped; a buffer that
  decodes is published to \<^verbatim>\<open>voice/commands\<close> as it is, whether or not it matches the command
  schema. The loop never makes the model call of the fallback repairer, on any frames:
  the response is not handed to \<^verbatim>\<open>ResponseParser\<close>.
\<close>

theorem response_loop_neither_validates_nor_repairs:
  assumes "json_loads w raw = Inr msg"
    and "py_get msg ''type'' = Inr (JStr ''response.done'')"
    and "json_buffer s \<noteq> []"
  shows "(json_loads w (json_buffer s) = Inl e \<longrightarrow>
            handle_message w s raw =
              ([Print (LogMessageType (JStr ''response.done'')),
                Print (LogParseFailed e),
                Print (LogBufferWas (json_buffer s))], None, s\<lparr>json_buffer := []\<rparr>)) \<and>
         (json_loads w (json_buffer s) = Inr payload \<and>
          mqtt_publish w ''voice/commands'' (json_dumps w payload) = None \<longrightarrow>
            handle_message w s raw =
              ([Print (LogMessageType (JStr ''response.done'')),
                Print (LogParsedPayload payload),
                MqttPublish ''voice/commands'' (json_dumps w payload)], None,
               s\<lparr>json_buffer := []\<rparr>)) \<and>
         (\<forall>p s0 frames. ChatCreate p \<notin> set (fst (handle_responses w s0 frames)))"
  using assms handle_responses_no_model_call
  by (simp add: handle_message_def response_done_def publish_payload_def publish_call_def)

theorem response_loop_neither_validates_nor_repairs_witness:
  "handle_responses sample_world fresh_client [delta_frame, done_frame] =
     ([Print (LogMessageType (JStr ''response.content_part.delta'')),
       Print (LogDelta (JStr ''{invalid'')),
       Print (LogMessageType (JStr ''response.done'')),
       Print (LogParseFailed
                (JSONDecodeError ''Expecting property name enclosed in double quotes'')),
       Print (LogBufferWas ''{invalid'')], None, fresh_client) \<and>
   \<not> jsonschema_valid smart_home_command_schema foo_value \<and>
   handle_message sample_world \<lparr>json_buffer = foo_text, last_transcript = None\<rparr> done_frame =
     ([Print (LogMessageType (JStr ''response.done'')),
       Print (LogParsedPayload foo_value),
       MqttPublish ''voice/commands'' foo_text], None, fresh_client)"
proof -
  have a: "json_loads sample_world done_frame = Inr done_message"
    by (simp add: sample_world_simps sample_loads_simps)
  have b: "py_get done_message ''type'' = Inr (JStr ''response.done'')"
    by (simp add: py_get_def py_get_default_def done_message_def)
  have c: \<open>json_buffer \<lparr>json_buffer = ''{invalid'', last_transcript = None\<rparr> \<noteq> []\<close>
    by simp
  have d: "json_buffer \<lparr>json_buffer = foo_text, last_transcript = None\<rparr> \<noteq> []"
    by (simp add: foo_text_def)
  have 1: "handle_message sample_world \<lparr>json_buffer = ''{invalid'', last_transcript = None\<rparr> done_frame =
     ([Print (LogMessageType (JStr ''response.done'')),
       Print (LogParseFailed
                (JSONDecodeError ''Expecting property name enclosed in double quotes'')),
       Print (LogBufferWas ''{invalid'')], None, fresh_client)"
    using response_loop_neither_validates_nor_repairs [OF a b c,
        of "JSONDecodeError ''Expecting property name enclosed in double quotes''" JNull]
    by (simp add: sample_world_simps sample_loads_simps fresh_client_def)
  have 2: "handle_message sample_world \<lparr>json_buffer = foo_text, last_transcript = None\<rparr> done_frame =
     ([Print (LogMessageType (JStr ''response.done'')),
       Print (LogParsedPayload foo_value),
       MqttPublish ''voice/commands'' foo_text], None, fresh_client)"
    using response_loop_neither_validates_nor_repairs [OF a b d, of "TypeError" foo_value]
    by (simp add: sample_world_simps sample_loads_simps sample_dumps_simps fresh_client_def)
  from 1 2 show ?thesis
    by (simp add: sample_frames fresh_client_def valid_payload_iff spec_samples)
qed

section \<open>The fallback repairer\<close>

lemma decode_error_details:
  assumes "json_loads w raw = Inl (JSONDecodeError m)"
  shows "is_valid_command_structure w raw = Inr (False, JNull)"
    and "get_validation_error_details w raw = Inr (JStr (''JSON Decode Error: '' @ m))"
  using assms
  by (simp_all add: is_valid_command_structure_def get_validation_error_details_def
      error_details_def)

lemma fallback_success:
  assumes "chat_completion w (fallback_prompt transcript raw_response) = Inr (JStr fixed)"
    and "json_loads w fixed = Inr v"
  shows "fallback w transcript raw_response =
           ([ChatCreate (fallback_prompt transcript raw_response)], Inr (True, v))"
  using assms
  by (simp add: fallback_def bind_res_def emit_def return_res_def loads_value_def)

text \<open>
  C3: what \<^verbatim>\<open>fallback\<close> checks of the repaired text. Whenever the answer of the model is a
  text that \<^verbatim>\<open>json.loads\<close> decodes, to any value \<open>v\<close>, \<^verbatim>\<open>fallback\<close> returns \<^verbatim>\<open>(True, v)\<close> after
  its single model call, and \<^verbatim>\<open>handle_invalid_response\<close> returns \<open>v\<close> as the recovered output:
  the repaired value is not validated against the command schema.
\<close>

theorem fallback_reports_success_without_validation:
  assumes "chat_completion w (fallback_prompt transcript raw_response) = Inr (JStr fixed)"
    and "json_loads w fixed = Inr v"
  shows "fallback w transcript raw_response =
           ([ChatCreate (fallback_prompt transcript raw_response)], Inr (True, v)) \<and>
         (transcript \<noteq> [] \<and> get_validation_error_details w raw_response = Inr err \<longrightarrow>
            handle_invalid_response w raw_response (Some transcript) =
              ([Print (LogInvalidReason err),
                Print LogAttemptFallback,
                ChatCreate (fallback_prompt transcript raw_response),
                Print LogRecovered,
                Print (LogValue v)], Inr v))"
  by (simp add: handle_invalid_response_def fallback_success [OF assms] bind_res_def
      lift_def emit_def return_res_def)

theorem fallback_reports_success_without_validation_witness:
  \<open>chat_completion sample_world (fallback_prompt ''turn on red'' ''{invalid'') = Inr (JStr foo_text) \<and>
   json_loads sample_world foo_text = Inr foo_value \<and>
   \<not> jsonschema_valid smart_home_command_schema foo_value \<and>
   fallback sample_world ''turn on red'' ''{invalid'' =
     ([ChatCreate (fallback_prompt ''turn on red'' ''{invalid'')], Inr (True, foo_value)) \<and>
   handle_invalid_response sample_world ''{invalid'' (Some ''turn on red'') =
     ([Print (LogInvalidReason
                (JStr ''JSON Decode Error: Expecting property name enclosed in double quotes'')),
       Print LogAttemptFallback,
       ChatCreate (fallback_prompt ''turn on red'' ''{invalid''),
       Print LogRecovered,
       Print (LogValue foo_value)], Inr foo_value)\<close>
proof -
  have a: \<open>chat_completion sample_world (fallback_prompt ''turn on red'' ''{invalid'')
             = Inr (JStr foo_text)\<close>
    by (simp add: sample_world_simps)
  have b: "json_loads sample_world foo_text = Inr foo_value"
    by (simp add: sample_world_simps sample_loads_simps)
  have c: \<open>get_validation_error_details sample_world ''{invalid'' =
      Inr (JStr ''JSON Decode Error: Expecting property name enclosed in double quotes'')\<close>
    using decode_error_details(2) [of sample_world \<open>''{invalid''\<close>]
    by (simp add: sample_world_simps sample_loads_simps)
  from a b c fallback_reports_success_without_validation [OF a b,
      of \<open>JStr ''JSON Decode Error: Expecting property name enclosed in double quotes''\<close>]
  show ?thesis by (simp add: valid_payload_iff spec_samples)
qed

section \<open>The response parser\<close>

text \<open>
  The repair path of \<^verbatim>\<open>process\<close> on a malformed text. With a non-empty transcript the model
  is called with the transcript and the raw text; without one the response is dropped
  without a repair. After a repair that yields a non-empty dict, \<^verbatim>\<open>json.loads(fixed)\<close> is
  applied to the dict and raises \<open>TypeError\<close>.
\<close>

lemma process_repairs_with_transcript:
  assumes "json_loads w raw = Inl (JSONDecodeError m)" and "t \<noteq> []"
  shows "\<exists>effs r. process w d raw (Some t) =
           (Print LogValidationFailed #
            Print (LogInvalidReason (JStr (''JSON Decode Error: '' @ m))) #
            Print LogAttemptFallback #
            ChatCreate (fallback_prompt t raw) # effs, r)"
  using assms(2)
  by (simp add: process_def recover_def handle_invalid_response_def fallback_def
      decode_error_details [OF assms(1)] bind_res_def lift_def emit_def return_res_def
      split: prod.splits sum.splits option.splits)

lemma process_drops_without_transcript:
  assumes "json_loads w raw = Inl (JSONDecodeError m)"
    and "transcript = None \<or> transcript = Some []"
  shows "process w d raw transcript =
           ([Print LogValidationFailed,
             Print (LogInvalidReason (JStr (''JSON Decode Error: '' @ m))),
             Print LogDropped], Inr ())"
  using assms(2)
  by (auto simp: process_def recover_def handle_invalid_response_def
      decode_error_details [OF assms(1)] bind_res_def lift_def emit_def return_res_def)

lemma process_after_repair_raises:
  assumes "json_loads w raw = Inl (JSONDecodeError m)" and "t \<noteq> []"
    and "chat_completion w (fallback_prompt t raw) = Inr (JStr fixed)"
    and "json_loads w fixed = Inr (JObj kvs)" and "kvs \<noteq> []"
  shows "process w d raw (Some t) =
           ([Print LogValidationFailed,
             Print (LogInvalidReason (JStr (''JSON Decode Error: '' @ m))),
             Print LogAttemptFallback,
             ChatCreate (fallback_prompt t raw),
             Print LogRecovered,
             Print (LogValue (JObj kvs))], Inl TypeError)"
  using assms(2,5)
  by (simp add: process_def recover_def handle_invalid_response_def
      fallback_success [OF assms(3,4)]
      decode_error_details [OF assms(1)] bind_res_def lift_def emit_def return_res_def
      loads_value_def)

text \<open>
  C1: a response that validates with a null \<^verbatim>\<open>command\<close> does not go through the repair path
  (no model call is made), and \<^verbatim>\<open>process\<close> calls the dispatcher on the null command all the
  same: after the two printed lines the run is that of \<open>d JNull\<close>, for any dispatcher \<open>d\<close>.
  \<^verbatim>\<open>MQTTHandler.dispatch\<close> starts with \<^verbatim>\<open>command.get\<close>, so with it the call raises
  \<open>AttributeError\<close>.
\<close>

theorem null_command_is_dispatched:
  assumes "json_loads w raw = Inr (JObj kvs)"
    and "map_of kvs ''speak'' = Some (JStr sp)"
    and "map_of kvs ''command'' = Some JNull"
  shows "process w (Some d) raw transcript =
           (case d JNull of
              (effs, r) \<Rightarrow> ([Print (LogSpeak (JStr sp)), Print (LogCommand JNull)] @ effs, r)) \<and>
         process w (Some (dispatch w)) raw transcript =
           ([Print (LogSpeak (JStr sp)), Print (LogCommand JNull)], Inl AttributeError)"
proof -
  have "spec_turn_payload (JObj kvs)"
    using assms(2,3) by (simp add: spec_turn_payload_def spec_command_def)
  then have v: "is_valid_command_structure w raw = Inr (True, JObj kvs)"
    using assms(1) by (simp add: accepted_when_valid valid_payload_iff)
  have gen: "process w (Some d') raw transcript =
           (case d' JNull of
              (effs, r) \<Rightarrow> ([Print (LogSpeak (JStr sp)), Print (LogCommand JNull)] @ effs, r))"
    for d'
    using assms(2,3)
    by (simp add: process_def v bind_res_def lift_def return_res_def emit_def py_get_def
        py_get_default_def split: prod.splits)
  show ?thesis
    using gen [of d] gen [of "dispatch w"] by (simp add: dispatch_on_None)
qed

theorem null_command_is_dispatched_witness:
  "json_loads sample_world hi_text = Inr hi_payload \<and>
   process sample_world (Some (dispatch sample_world)) hi_text None =
     ([Print (LogSpeak (JStr ''hi'')), Print (LogCommand JNull)], Inl AttributeError)"
proof -
  have a: "json_loads sample_world hi_text = Inr (JObj [(''speak'', JStr ''hi''), (''command'', JNull)])"
    by (simp add: sample_world_simps sample_loads_simps hi_payload_def)
  from null_command_is_dispatched [OF a, of "''hi''" "dispatch sample_world" None] a
  show ?thesis by (simp add: hi_payload_def dispatch_on_None)
qed

end
